theory Spec2Isabelle
  imports Main "HOL-Library.Word" "HOL-Library.Sublist"
begin

unbundle bit_operations_syntax

section \<open>The XDP loader of basic02-prog-by-name\<close>

text \<open>
  A shallow embedding of \<^verbatim>\<open>xdp_loader.c\<close>. The loader is a straight-line program
  around four calls into libbpf and the kernel. Each function of the source becomes a
  function that returns its C return value together with the list of events it caused,
  in program order: the lines it printed and the calls it made. The answers of libbpf
  and of the kernel are not computed by the loader; they are read from an environment
  that is a parameter of every function.

  C \<^verbatim>\<open>int\<close> values (interface index, descriptors, error codes, exit codes) are
  modelled as \<open>int\<close>: the only arithmetic on them is the negation of a negative error
  code. The \<^verbatim>\<open>__u32\<close> flag word is a \<open>32 word\<close>.
\<close>

subsection \<open>Constants of the headers\<close>

type_synonym u32 = "32 word"

text \<open>The attachment flags of \<^verbatim>\<open>linux/if_link.h\<close>.\<close>

definition XDP_FLAGS_UPDATE_IF_NOEXIST :: u32 where
  "XDP_FLAGS_UPDATE_IF_NOEXIST = push_bit 0 1"

definition XDP_FLAGS_SKB_MODE :: u32 where
  "XDP_FLAGS_SKB_MODE = push_bit 1 1"

definition XDP_FLAGS_DRV_MODE :: u32 where
  "XDP_FLAGS_DRV_MODE = push_bit 2 1"

definition XDP_FLAGS_HW_MODE :: u32 where
  "XDP_FLAGS_HW_MODE = push_bit 3 1"

definition XDP_FLAGS_MODES :: u32 where
  "XDP_FLAGS_MODES = XDP_FLAGS_SKB_MODE OR XDP_FLAGS_DRV_MODE OR XDP_FLAGS_HW_MODE"

text \<open>The two error numbers of \<^verbatim>\<open>errno.h\<close> (Linux) that the loader looks at.\<close>

definition EBUSY :: int where
  "EBUSY = 16"

definition EOPNOTSUPP :: int where
  "EOPNOTSUPP = 95"

text \<open>
  Modelled from the spec: the exit codes are macros of \<^verbatim>\<open>common_defines.h\<close>, which is
  not among the sources. The spec asks for a success code and three failure codes
  (option/configuration failure, attachment-layer failure, load/selection failure),
  stable and distinct. The values are those of the tutorial's header; the loader tests
  the result of \<^verbatim>\<open>xdp_load\<close> with \<^verbatim>\<open>if (err)\<close>, so success is 0.
\<close>

definition EXIT_OK :: int where
  "EXIT_OK = 0"

definition EXIT_FAIL_OPTION :: int where
  "EXIT_FAIL_OPTION = 2"

definition EXIT_FAIL_XDP :: int where
  "EXIT_FAIL_XDP = 30"

definition EXIT_FAIL_BPF :: int where
  "EXIT_FAIL_BPF = 40"

subsection \<open>Data\<close>

text \<open>
  Modelled from the spec: \<^verbatim>\<open>struct config\<close> is declared in \<^verbatim>\<open>common_defines.h\<close>.
  The fields are the ones \<^verbatim>\<open>xdp_loader.c\<close> reads and writes; they are the
  Configuration record of the spec.
\<close>

record config =
  xdp_flags :: u32
  ifindex :: int
  ifname :: string
  do_unload :: bool
  filename :: string
  progname :: string

text \<open>The first members of \<^verbatim>\<open>enum bpf_prog_type\<close> (\<^verbatim>\<open>linux/bpf.h\<close>).\<close>

datatype bpf_prog_type =
    BPF_PROG_TYPE_UNSPEC
  | BPF_PROG_TYPE_SOCKET_FILTER
  | BPF_PROG_TYPE_KPROBE
  | BPF_PROG_TYPE_SCHED_CLS
  | BPF_PROG_TYPE_SCHED_ACT
  | BPF_PROG_TYPE_TRACEPOINT
  | BPF_PROG_TYPE_XDP
  | BPF_PROG_TYPE_PERF_EVENT

text \<open>
  What the loader can observe of libbpf's opaque \<^verbatim>\<open>struct bpf_program\<close> and
  \<^verbatim>\<open>struct bpf_object\<close>: a program has a section title, a type and a descriptor; an
  object has a name and its programs, in the order \<^verbatim>\<open>bpf_object__for_each_program\<close>
  visits them.
\<close>

record bpf_program =
  section_title :: string
  prog_type :: bpf_prog_type
  fd :: int

record bpf_object =
  object_name :: string
  programs :: "bpf_program list"

record bpf_prog_load_attr =
  attr_file :: string
  attr_prog_type :: bpf_prog_type

record bpf_prog_info =
  info_name :: string
  info_id :: u32

subsection \<open>Events\<close>

text \<open>
  A printed line is kept as the format string of the source with its arguments, not
  rendered. \<open>Strerror n\<close> stands for the text \<^verbatim>\<open>strerror(n)\<close>, \<open>Strerror_errno\<close> for
  \<^verbatim>\<open>strerror(errno)\<close> and \<open>Sizeof_filename\<close> for \<^verbatim>\<open>sizeof(cfg.filename)\<close>.
\<close>

datatype stream = Stdout | Stderr

datatype arg = S string | D int | Sizeof_filename | Strerror int | Strerror_errno

datatype event =
    Printf stream string "arg list"
  | Call_parse_cmdline_args
  | Call_usage
  | Call_bpf_prog_load_xattr bpf_prog_load_attr
  | Call_bpf_object__find_program_by_title string
  | Call_bpf_set_link_xdp_fd int int u32
  | Call_bpf_obj_get_info_by_fd int

subsection \<open>The environment: libbpf and the kernel\<close>

text \<open>
  \<open>bpf_prog_load_xattr\<close> answers with its return value and the object it stored
  through its second argument; \<open>bpf_set_link_xdp_fd\<close> with its return value;
  \<open>bpf_obj_get_info_by_fd\<close> with its return value and the info it filled in.
\<close>

record env =
  bpf_prog_load_xattr :: "bpf_prog_load_attr \<Rightarrow> int \<times> bpf_object option"
  bpf_set_link_xdp_fd :: "int \<Rightarrow> int \<Rightarrow> u32 \<Rightarrow> int"
  bpf_obj_get_info_by_fd :: "int \<Rightarrow> int \<times> bpf_prog_info"

text \<open>The accessors of libbpf are projections.\<close>

definition bpf_object__name :: "bpf_object \<Rightarrow> string" where
  "bpf_object__name obj = object_name obj"

definition bpf_program__title :: "bpf_program \<Rightarrow> string" where
  "bpf_program__title prog = section_title prog"

definition bpf_program__is_xdp :: "bpf_program \<Rightarrow> bool" where
  "bpf_program__is_xdp prog \<longleftrightarrow> prog_type prog = BPF_PROG_TYPE_XDP"

definition bpf_program__fd :: "bpf_program \<Rightarrow> int" where
  "bpf_program__fd prog = fd prog"

text \<open>
  libbpf's lookup by title walks the programs of the object and returns the first one
  whose section title equals the argument, or NULL. It does not look at the type.
\<close>

definition bpf_object__find_program_by_title :: "bpf_object \<Rightarrow> string \<Rightarrow> bpf_program option" where
  "bpf_object__find_program_by_title obj title =
     find (\<lambda>pos. bpf_program__title pos = title) (programs obj)"

subsection \<open>The functions of the loader\<close>

definition default_filename :: string where
  "default_filename = ''xdp_prog_kern.o''"

definition default_progname :: string where
  "default_progname = ''xdp_pass''"

definition load_bpf_object_file :: "env \<Rightarrow> string \<Rightarrow> bpf_object option \<times> event list" where
  "load_bpf_object_file e fname =
     (let prog_load_attr = \<lparr>attr_file = fname, attr_prog_type = BPF_PROG_TYPE_XDP\<rparr>
      in case bpf_prog_load_xattr e prog_load_attr of
           (err, obj) \<Rightarrow>
             if err \<noteq> 0 then
               (None,
                [Call_bpf_prog_load_xattr prog_load_attr,
                 Printf Stderr ''ERR: loading BPF-OBJ file(%s) (%d): %s\<newline>''
                   [S fname, D err, Strerror (- err)]])
             else (obj, [Call_bpf_prog_load_xattr prog_load_attr]))"

definition xdp_unload :: "env \<Rightarrow> int \<Rightarrow> u32 \<Rightarrow> int \<times> event list" where
  "xdp_unload e ifidx flags =
     (let err = bpf_set_link_xdp_fd e ifidx (- 1) flags
      in if err < 0 then
           (EXIT_FAIL_XDP,
            [Call_bpf_set_link_xdp_fd ifidx (- 1) flags,
             Printf Stderr ''ERR: link set xdp unload failed (err=%d):%s\<newline>''
               [D err, Strerror (- err)]])
         else (EXIT_OK, [Call_bpf_set_link_xdp_fd ifidx (- 1) flags]))"

definition xdp_load :: "env \<Rightarrow> config \<Rightarrow> int \<Rightarrow> int \<times> event list" where
  "xdp_load e cfg prog_fd =
     (let err = bpf_set_link_xdp_fd e (ifindex cfg) prog_fd (xdp_flags cfg)
      in if err < 0 then
           (EXIT_FAIL_XDP,
            [Call_bpf_set_link_xdp_fd (ifindex cfg) prog_fd (xdp_flags cfg),
             Printf Stderr ''ERR: dev:%s link set xdp fd failed (%d): %s\<newline>''
               [S (ifname cfg), D (- err), Strerror (- err)]]
            @ (if - err = EBUSY then
                 [Printf Stderr
                    ''Hint: XDP already loaded on device use --force to swap/replace\<newline>'' []]
               else if - err = EOPNOTSUPP then
                 [Printf Stderr
                    ''Hint: Native-XDP not supported use --skb-mode or --auto-mode\<newline>'' []]
               else []))
         else (EXIT_OK, [Call_bpf_set_link_xdp_fd (ifindex cfg) prog_fd (xdp_flags cfg)]))"

text \<open>The loop of \<^verbatim>\<open>print_avail_progs\<close> over the programs of the object.\<close>

fun print_avail_progs_loop :: "bpf_program list \<Rightarrow> event list" where
  "print_avail_progs_loop [] = []"
| "print_avail_progs_loop (pos # rest) =
     (if bpf_program__is_xdp pos
      then Printf Stdout '' %s\<newline>'' [S (bpf_program__title pos)] # print_avail_progs_loop rest
      else print_avail_progs_loop rest)"

definition print_avail_progs :: "bpf_object \<Rightarrow> event list" where
  "print_avail_progs obj = print_avail_progs_loop (programs obj)"

text \<open>
  The initial configuration of \<^verbatim>\<open>main\<close>: the designated initialiser and the two
  \<^verbatim>\<open>strncpy\<close> of the defaults (both shorter than the field). The device name is
  zero-initialised.
\<close>

definition default_cfg :: config where
  "default_cfg =
     \<lparr>xdp_flags = XDP_FLAGS_UPDATE_IF_NOEXIST OR XDP_FLAGS_DRV_MODE,
      ifindex = - 1,
      ifname = [],
      do_unload = False,
      filename = default_filename,
      progname = default_progname\<rparr>"

text \<open>
  \<^verbatim>\<open>main\<close> from the line after \<^verbatim>\<open>parse_cmdline_args\<close> on, for the configuration
  that the parser left behind.
\<close>

definition main_body :: "env \<Rightarrow> config \<Rightarrow> int \<times> event list" where
  "main_body e cfg =
     (let t0 = [Printf Stdout ''filename:%s size:%ld progname:%s\<newline>''
                  [S (filename cfg), Sizeof_filename, S (progname cfg)]]
      in
      if ifindex cfg = - 1 then
        (EXIT_FAIL_OPTION,
         t0 @ [Printf Stderr ''ERR: required option --dev missing\<newline>'' [], Call_usage])
      else if do_unload cfg then
        (case xdp_unload e (ifindex cfg) (xdp_flags cfg) of (rc, t1) \<Rightarrow> (rc, t0 @ t1))
      else
        (case load_bpf_object_file e (filename cfg) of
           (None, t1) \<Rightarrow>
             (EXIT_FAIL_BPF,
              t0 @ t1 @ [Printf Stderr ''ERR: loading file: %s\<newline>'' [S (filename cfg)]])
         | (Some bpf_obj, t1) \<Rightarrow>
             (let t2 = t0 @ t1
                    @ [Printf Stdout ''XXX: bpf_object__name:%s\<newline>''
                         [S (bpf_object__name bpf_obj)]]
                    @ print_avail_progs bpf_obj
                    @ [Call_bpf_object__find_program_by_title (progname cfg)]
              in
              case bpf_object__find_program_by_title bpf_obj (progname cfg) of
                None \<Rightarrow>
                  (EXIT_FAIL_BPF,
                   t2 @ [Printf Stderr ''ERR: finding progname: %s\<newline>'' [S (progname cfg)]])
              | Some bpf_prog \<Rightarrow>
                  (let prog_fd = bpf_program__fd bpf_prog
                   in
                   if prog_fd \<le> 0 then
                     (EXIT_FAIL_BPF,
                      t2 @ [Printf Stderr ''ERR: bpf_program__fd failed\<newline>'' []])
                   else
                     (case xdp_load e cfg prog_fd of
                        (err, t3) \<Rightarrow>
                          if err \<noteq> 0 then (err, t2 @ t3)
                          else
                            (case bpf_obj_get_info_by_fd e prog_fd of
                               (err', info) \<Rightarrow>
                                 if err' \<noteq> 0 then
                                   (err',
                                    t2 @ t3
                                    @ [Call_bpf_obj_get_info_by_fd prog_fd,
                                       Printf Stderr ''ERR: can't get prog info - %s\<newline>''
                                         [Strerror_errno]])
                                 else
                                   (EXIT_OK,
                                    t2 @ t3
                                    @ [Call_bpf_obj_get_info_by_fd prog_fd,
                                       Printf Stdout
                                         ''Success: Loading XDP prog name:%s(id:%d) on device:%s(ifindex:%d)\<newline>''
                                         [S (info_name info), D (sint (info_id info)),
                                          S (ifname cfg), D (ifindex cfg)]])))))))"

subsection \<open>The command line\<close>

text \<open>
  Modelled from the spec: \<^verbatim>\<open>parse_cmdline_args\<close> is defined in the tutorial's common
  code, which is not among the sources. The spec calls it the configuration builder
  and, for the mode flags, the ModeResolver (section 4.1). The operator's input is the
  flag set \<open>{skbMode, nativeMode, autoMode, force}\<close>, the unload request, the device
  (name and resolved index, -1 when unresolved) and the optional bundle path and
  entry-point name.
\<close>

record flags =
  skbMode :: bool
  nativeMode :: bool
  autoMode :: bool
  force :: bool

record cmdline =
  modeFlags :: flags
  unloadRequested :: bool
  interfaceName :: string
  interfaceIndex :: int
  objectPath :: "string option"
  entryPointName :: "string option"

datatype config_error = ConfigError string

text \<open>
  Modelled from the spec: \<open>resolve\<close> of section 4.1, on the flag word of the kernel.
  skbMode with nativeMode is the error "conflicting mode flags"; autoMode with either
  of them is an error too (the spec gives no other text for it); skbMode alone selects
  the generic mode; autoMode alone selects no mode bit; nativeMode, or no mode flag at
  all, selects the driver mode; force sets ReplaceIfExists. The kernel's flag word has
  the opposite bit, \<^verbatim>\<open>XDP_FLAGS_UPDATE_IF_NOEXIST\<close>: ReplaceIfExists is present exactly
  when that bit is clear.
\<close>

definition resolve :: "flags \<Rightarrow> config_error + u32" where
  "resolve fl =
     (if skbMode fl \<and> nativeMode fl then Inl (ConfigError ''conflicting mode flags'')
      else if autoMode fl \<and> (skbMode fl \<or> nativeMode fl) then
        Inl (ConfigError ''conflicting mode flags'')
      else
        Inr ((if force fl then 0 else XDP_FLAGS_UPDATE_IF_NOEXIST)
             OR (if skbMode fl then XDP_FLAGS_SKB_MODE
                 else if autoMode fl then 0
                 else XDP_FLAGS_DRV_MODE)))"

text \<open>The attachment mode of the spec, read off the flag word.\<close>

definition SkbGeneric :: "u32 \<Rightarrow> bool" where
  "SkbGeneric m \<longleftrightarrow> m AND XDP_FLAGS_SKB_MODE \<noteq> 0"

definition DriverNative :: "u32 \<Rightarrow> bool" where
  "DriverNative m \<longleftrightarrow> m AND XDP_FLAGS_DRV_MODE \<noteq> 0"

definition HardwareOffload :: "u32 \<Rightarrow> bool" where
  "HardwareOffload m \<longleftrightarrow> m AND XDP_FLAGS_HW_MODE \<noteq> 0"

definition ReplaceIfExists :: "u32 \<Rightarrow> bool" where
  "ReplaceIfExists m \<longleftrightarrow> m AND XDP_FLAGS_UPDATE_IF_NOEXIST = 0"

text \<open>
  Modelled from the spec: the parser fills the configuration that \<^verbatim>\<open>main\<close> hands it
  (section 6: a fully populated record, the interface name already resolved to its
  index), or fails with a ConfigError.
\<close>

definition parse_cmdline_args :: "cmdline \<Rightarrow> config \<Rightarrow> config_error + config" where
  "parse_cmdline_args a cfg =
     (case resolve (modeFlags a) of
        Inl err \<Rightarrow> Inl err
      | Inr m \<Rightarrow>
          Inr (cfg\<lparr>xdp_flags := m,
                   ifindex := interfaceIndex a,
                   ifname := interfaceName a,
                   do_unload := unloadRequested a,
                   filename := (case objectPath a of None \<Rightarrow> filename cfg | Some f \<Rightarrow> f),
                   progname := (case entryPointName a of None \<Rightarrow> progname cfg | Some n \<Rightarrow> n)\<rparr>))"

text \<open>
  \<^verbatim>\<open>main\<close>: the defaults, the parser, then the rest. The parser returns nothing in C,
  so a ConfigError can only end the process inside it; by the spec (section 7) that
  happens before the kernel is touched and with the option-failure exit code.
\<close>

definition main :: "env \<Rightarrow> cmdline \<Rightarrow> int \<times> event list" where
  "main e a =
     (case parse_cmdline_args a default_cfg of
        Inl err \<Rightarrow> (EXIT_FAIL_OPTION, [Call_parse_cmdline_args])
      | Inr cfg \<Rightarrow>
          (case main_body e cfg of (rc, t) \<Rightarrow> (rc, Call_parse_cmdline_args # t)))"

subsection \<open>Reading a trace\<close>

text \<open>
  The operations of the spec, as they appear in a trace. Attach and detach are the same
  call; detach is the one with descriptor -1.
\<close>

datatype operation =
    Op_configuration
  | Op_load
  | Op_select
  | Op_attach
  | Op_detach
  | Op_info_query

fun operation_of :: "event \<Rightarrow> operation option" where
  "operation_of (Printf st fmt args) = None"
| "operation_of Call_parse_cmdline_args = Some Op_configuration"
| "operation_of Call_usage = None"
| "operation_of (Call_bpf_prog_load_xattr attr) = Some Op_load"
| "operation_of (Call_bpf_object__find_program_by_title title) = Some Op_select"
| "operation_of (Call_bpf_set_link_xdp_fd ifidx prog_fd fl) =
     Some (if prog_fd = - 1 then Op_detach else Op_attach)"
| "operation_of (Call_bpf_obj_get_info_by_fd prog_fd) = Some Op_info_query"

definition operations :: "event list \<Rightarrow> operation list" where
  "operations t = List.map_filter operation_of t"

text \<open>The kernel attachment calls of a trace: interface index, descriptor, flags.\<close>

fun set_link_of :: "event \<Rightarrow> (int \<times> int \<times> u32) option" where
  "set_link_of (Call_bpf_set_link_xdp_fd ifidx prog_fd fl) = Some (ifidx, prog_fd, fl)"
| "set_link_of _ = None"

definition set_link_calls :: "event list \<Rightarrow> (int \<times> int \<times> u32) list" where
  "set_link_calls t = List.map_filter set_link_of t"

text \<open>The entry-point names listed in a trace, and the hint lines of a trace.\<close>

fun listed_of :: "event \<Rightarrow> string option" where
  "listed_of (Printf st fmt args) =
     (case args of
        [S n] \<Rightarrow> if st = Stdout \<and> fmt = '' %s\<newline>'' then Some n else None
      | _ \<Rightarrow> None)"
| "listed_of _ = None"

definition listed :: "event list \<Rightarrow> string list" where
  "listed t = List.map_filter listed_of t"

definition is_hint :: "event \<Rightarrow> bool" where
  "is_hint ev \<longleftrightarrow> (case ev of Printf st fmt args \<Rightarrow> take 5 fmt = ''Hint:'' | _ \<Rightarrow> False)"

definition hints :: "event list \<Rightarrow> event list" where
  "hints t = filter is_hint t"

subsection \<open>What libbpf guarantees about a loaded object\<close>


subsection \<open>Example inputs\<close>

text \<open>
  A bundle with two XDP entry points, one of them without a usable descriptor, and a
  tracepoint program between them; kernels that accept everything, that fail the
  post-attach query, and that report the hook as busy; a configuration and a command
  line for device 3.
\<close>

definition bundle_ex :: bpf_object where
  "bundle_ex =
     \<lparr>object_name = ''xdp_prog_kern.o'',
      programs =
        [\<lparr>section_title = ''xdp_pass'', prog_type = BPF_PROG_TYPE_XDP, fd = 3\<rparr>,
         \<lparr>section_title = ''tracepoint/sched'', prog_type = BPF_PROG_TYPE_TRACEPOINT, fd = 4\<rparr>,
         \<lparr>section_title = ''xdp_drop'', prog_type = BPF_PROG_TYPE_XDP, fd = - 1\<rparr>]\<rparr>"

definition kernel_ok :: env where
  "kernel_ok =
     \<lparr>bpf_prog_load_xattr = (\<lambda>attr. (0, Some bundle_ex)),
      bpf_set_link_xdp_fd = (\<lambda>ifidx prog_fd fl. 0),
      bpf_obj_get_info_by_fd = (\<lambda>prog_fd. (0, \<lparr>info_name = ''xdp_pass'', info_id = 42\<rparr>))\<rparr>"



definition kernel_info_fails :: env where
  "kernel_info_fails =
     kernel_ok\<lparr>bpf_obj_get_info_by_fd := (\<lambda>prog_fd. (- 1, \<lparr>info_name = [], info_id = 0\<rparr>))\<rparr>"

definition kernel_busy :: env where
  "kernel_busy = kernel_ok\<lparr>bpf_set_link_xdp_fd := (\<lambda>ifidx prog_fd fl. - 16)\<rparr>"

definition cfg_eth0 :: config where
  "cfg_eth0 = default_cfg\<lparr>ifindex := 3, ifname := ''eth0''\<rparr>"

definition no_flags :: flags where
  "no_flags = \<lparr>skbMode = False, nativeMode = False, autoMode = False, force = False\<rparr>"

definition cmd_eth0 :: cmdline where
  "cmd_eth0 =
     \<lparr>modeFlags = no_flags, unloadRequested = False, interfaceName = ''eth0'',
      interfaceIndex = 3, objectPath = None, entryPointName = None\<rparr>"

section \<open>Properties\<close>

subsection \<open>Auxiliary facts\<close>

lemmas consts_defs =
  XDP_FLAGS_UPDATE_IF_NOEXIST_def XDP_FLAGS_SKB_MODE_def XDP_FLAGS_DRV_MODE_def
  XDP_FLAGS_HW_MODE_def XDP_FLAGS_MODES_def EBUSY_def EOPNOTSUPP_def EXIT_OK_def
  EXIT_FAIL_OPTION_def EXIT_FAIL_XDP_def EXIT_FAIL_BPF_def

lemmas loader_defs =
  main_body_def load_bpf_object_file_def xdp_load_def xdp_unload_def
  print_avail_progs_def bpf_object__find_program_by_title_def bpf_program__title_def
  bpf_program__is_xdp_def bpf_program__fd_def bpf_object__name_def default_cfg_def
  default_filename_def default_progname_def

lemmas example_defs =
  bundle_ex_def kernel_ok_def kernel_info_fails_def kernel_busy_def
  cfg_eth0_def no_flags_def cmd_eth0_def

lemma map_filter_append: "List.map_filter f (xs @ ys) = List.map_filter f xs @ List.map_filter f ys"
  by (simp add: List.map_filter_def)

lemma listed_Nil: "listed [] = []"
  by (simp add: listed_def)

lemma listed_Cons:
  "listed (ev # t) = (case listed_of ev of None \<Rightarrow> listed t | Some n \<Rightarrow> n # listed t)"
  by (simp add: listed_def split: option.splits)

lemma listed_append: "listed (t @ u) = listed t @ listed u"
  by (simp add: listed_def map_filter_append)

lemma operations_Nil: "operations [] = []"
  by (simp add: operations_def)

lemma operations_Cons:
  "operations (ev # t) =
     (case operation_of ev of None \<Rightarrow> operations t | Some n \<Rightarrow> n # operations t)"
  by (simp add: operations_def split: option.splits)

lemma operations_append: "operations (t @ u) = operations t @ operations u"
  by (simp add: operations_def map_filter_append)

lemma set_link_calls_Nil: "set_link_calls [] = []"
  by (simp add: set_link_calls_def)

lemma set_link_calls_Cons:
  "set_link_calls (ev # t) =
     (case set_link_of ev of None \<Rightarrow> set_link_calls t | Some c \<Rightarrow> c # set_link_calls t)"
  by (simp add: set_link_calls_def split: option.splits)

lemma set_link_calls_append: "set_link_calls (t @ u) = set_link_calls t @ set_link_calls u"
  by (simp add: set_link_calls_def map_filter_append)

text \<open>The listing loop prints the titles of the XDP programs, in order, and nothing else.\<close>

lemma print_avail_progs_loop_eq:
  "print_avail_progs_loop ps =
     map (\<lambda>pos. Printf Stdout '' %s\<newline>'' [S (bpf_program__title pos)])
       (filter bpf_program__is_xdp ps)"
  by (induction ps) simp_all

lemma listed_print_avail_progs_loop:
  "listed (print_avail_progs_loop ps) = map bpf_program__title (filter bpf_program__is_xdp ps)"
  by (induction ps) (simp_all add: listed_Nil listed_Cons)

lemma operations_print_avail_progs_loop: "operations (print_avail_progs_loop ps) = []"
  by (induction ps) (simp_all add: operations_Nil operations_Cons)

lemma set_link_calls_print_avail_progs_loop: "set_link_calls (print_avail_progs_loop ps) = []"
  by (induction ps) (simp_all add: set_link_calls_Nil set_link_calls_Cons)

text \<open>Each of the three callees makes exactly one call.\<close>

lemma xdp_unload_calls: "set_link_calls (snd (xdp_unload e i fl)) = [(i, - 1, fl)]"
  by (simp add: xdp_unload_def Let_def set_link_calls_Nil set_link_calls_Cons)

lemma xdp_load_calls:
  "set_link_calls (snd (xdp_load e cfg pfd)) = [(ifindex cfg, pfd, xdp_flags cfg)]"
  by (simp add: xdp_load_def Let_def set_link_calls_Nil set_link_calls_Cons
      set_link_calls_append)

lemma load_bpf_object_file_calls: "set_link_calls (snd (load_bpf_object_file e f)) = []"
  by (simp add: load_bpf_object_file_def Let_def case_prod_beta set_link_calls_Nil
      set_link_calls_Cons)

lemma operations_xdp_unload: "operations (snd (xdp_unload e i fl)) = [Op_detach]"
  by (simp add: xdp_unload_def Let_def operations_Nil operations_Cons)

lemma operations_xdp_load:
  "pfd \<noteq> - 1 \<Longrightarrow> operations (snd (xdp_load e cfg pfd)) = [Op_attach]"
  by (simp add: xdp_load_def Let_def operations_Nil operations_Cons operations_append)

lemma operations_load_bpf_object_file:
  "operations (snd (load_bpf_object_file e f)) = [Op_load]"
  by (simp add: load_bpf_object_file_def Let_def case_prod_beta operations_Nil
      operations_Cons)

text \<open>The operations of a run of \<open>main_body\<close>, by the point at which it returns.\<close>

lemma operations_main_body:
  "operations (snd (main_body e cfg)) =
     (if ifindex cfg = - 1 then []
      else if do_unload cfg then [Op_detach]
      else
        (case fst (load_bpf_object_file e (filename cfg)) of
           None \<Rightarrow> [Op_load]
         | Some obj \<Rightarrow>
             (case bpf_object__find_program_by_title obj (progname cfg) of
                None \<Rightarrow> [Op_load, Op_select]
              | Some p \<Rightarrow>
                  if bpf_program__fd p \<le> 0 then [Op_load, Op_select]
                  else if fst (xdp_load e cfg (bpf_program__fd p)) \<noteq> 0
                  then [Op_load, Op_select, Op_attach]
                  else [Op_load, Op_select, Op_attach, Op_info_query])))"
proof -
  have u: "operations (snd (xdp_unload e (ifindex cfg) (xdp_flags cfg))) = [Op_detach]"
    by (rule operations_xdp_unload)
  have l: "operations (snd (load_bpf_object_file e (filename cfg))) = [Op_load]"
    by (rule operations_load_bpf_object_file)
  have a: "\<And>p. 0 < bpf_program__fd p \<Longrightarrow>
             operations (snd (xdp_load e cfg (bpf_program__fd p))) = [Op_attach]"
    by (rule operations_xdp_load) simp
  show ?thesis
    using u l a
    by (simp add: main_body_def Let_def case_prod_beta operations_Nil operations_Cons
        operations_append print_avail_progs_def operations_print_avail_progs_loop
        split: option.splits)
qed

subsection \<open>Attach and detach\<close>

text \<open>
  C8: for every interface index and mode, detach is the same kernel attachment call as
  attach, with the absent program reference -1 in place of the descriptor, and with
  exactly the mode bitmask the caller would use for attach. \<open>xdp_unload\<close>, called as
  \<open>main\<close> calls it, and \<open>xdp_load\<close> each make one call of \<open>bpf_set_link_xdp_fd\<close>, on the
  same interface index and the same flags; an unload run of \<open>main\<close> makes that one call.
\<close>

theorem C8_detach_is_attach_without_program:
  "set_link_calls (snd (xdp_unload e (ifindex cfg) (xdp_flags cfg)))
     = [(ifindex cfg, - 1, xdp_flags cfg)]
   \<and> set_link_calls (snd (xdp_load e cfg prog_fd)) = [(ifindex cfg, prog_fd, xdp_flags cfg)]
   \<and> (ifindex cfg \<noteq> - 1 \<and> do_unload cfg \<longrightarrow>
        set_link_calls (snd (main_body e cfg)) = [(ifindex cfg, - 1, xdp_flags cfg)])"
  by (simp add: xdp_unload_calls xdp_load_calls main_body_def Let_def case_prod_beta
      set_link_calls_Cons set_link_calls_Nil)

theorem C8_detach_is_attach_without_program_witness:
  "set_link_calls (snd (main_body kernel_ok (cfg_eth0\<lparr>do_unload := True\<rparr>))) = [(3, - 1, 5)]
   \<and> set_link_calls (snd (xdp_load kernel_ok (cfg_eth0\<lparr>do_unload := True\<rparr>) 3)) = [(3, 3, 5)]"
  using C8_detach_is_attach_without_program [of kernel_ok "cfg_eth0\<lparr>do_unload := True\<rparr>" 3]
  by (simp add: cfg_eth0_def default_cfg_def consts_defs)

text \<open>The kernel attachment calls of a run of \<open>main_body\<close>.\<close>

lemma set_link_calls_main_body:
  "set_link_calls (snd (main_body e cfg)) =
     (if ifindex cfg = - 1 then []
      else if do_unload cfg then [(ifindex cfg, - 1, xdp_flags cfg)]
      else
        (case fst (load_bpf_object_file e (filename cfg)) of
           None \<Rightarrow> []
         | Some obj \<Rightarrow>
             (case bpf_object__find_program_by_title obj (progname cfg) of
                None \<Rightarrow> []
              | Some p \<Rightarrow>
                  if bpf_program__fd p \<le> 0 then []
                  else [(ifindex cfg, bpf_program__fd p, xdp_flags cfg)])))"
  by (simp add: main_body_def Let_def case_prod_beta set_link_calls_Nil set_link_calls_Cons
      set_link_calls_append print_avail_progs_def set_link_calls_print_avail_progs_loop
      xdp_unload_calls xdp_load_calls load_bpf_object_file_calls
      split: option.splits)

lemma load_bpf_object_file_ok:
  "bpf_prog_load_xattr e \<lparr>attr_file = f, attr_prog_type = BPF_PROG_TYPE_XDP\<rparr> = (0, Some obj) \<Longrightarrow>
   load_bpf_object_file e f =
     (Some obj, [Call_bpf_prog_load_xattr \<lparr>attr_file = f, attr_prog_type = BPF_PROG_TYPE_XDP\<rparr>])"
  by (simp add: load_bpf_object_file_def Let_def)

text \<open>
  C10: the attach call is only made with a valid program handle. In a run that is not
  an unload, every call of \<open>bpf_set_link_xdp_fd\<close> carries a strictly positive descriptor;
  and when the bundle is loaded, the entry point is found and its descriptor is not
  strictly positive, the run ends with the load/selection-failure exit code after the
  line "ERR: bpf_program__fd failed", without any kernel attachment call.
\<close>

theorem C10_attach_needs_valid_descriptor:
  "(\<not> do_unload cfg \<longrightarrow>
      (\<forall>c \<in> set (set_link_calls (snd (main_body e cfg))). 0 < fst (snd c)))
   \<and> (ifindex cfg \<noteq> - 1 \<and> \<not> do_unload cfg
        \<and> bpf_prog_load_xattr e \<lparr>attr_file = filename cfg, attr_prog_type = BPF_PROG_TYPE_XDP\<rparr>
            = (0, Some obj)
        \<and> bpf_object__find_program_by_title obj (progname cfg) = Some p
        \<and> bpf_program__fd p \<le> 0 \<longrightarrow>
      fst (main_body e cfg) = EXIT_FAIL_BPF
      \<and> set_link_calls (snd (main_body e cfg)) = []
      \<and> last (snd (main_body e cfg)) = Printf Stderr ''ERR: bpf_program__fd failed\<newline>'' [])"
proof (intro conjI impI)
  assume "\<not> do_unload cfg"
  then show "\<forall>c \<in> set (set_link_calls (snd (main_body e cfg))). 0 < fst (snd c)"
    by (auto simp add: set_link_calls_main_body split: option.splits if_splits)
next
  assume a: "ifindex cfg \<noteq> - 1 \<and> \<not> do_unload cfg
        \<and> bpf_prog_load_xattr e \<lparr>attr_file = filename cfg, attr_prog_type = BPF_PROG_TYPE_XDP\<rparr>
            = (0, Some obj)
        \<and> bpf_object__find_program_by_title obj (progname cfg) = Some p
        \<and> bpf_program__fd p \<le> 0"
  then have l: "load_bpf_object_file e (filename cfg) =
     (Some obj,
      [Call_bpf_prog_load_xattr \<lparr>attr_file = filename cfg, attr_prog_type = BPF_PROG_TYPE_XDP\<rparr>])"
    by (simp add: load_bpf_object_file_ok)
  from a l show "fst (main_body e cfg) = EXIT_FAIL_BPF"
    by (simp add: main_body_def Let_def)
  from a l show "set_link_calls (snd (main_body e cfg)) = []"
    by (simp add: set_link_calls_main_body)
  from a l show
    "last (snd (main_body e cfg)) = Printf Stderr ''ERR: bpf_program__fd failed\<newline>'' []"
    by (simp add: main_body_def Let_def)
qed

theorem C10_attach_needs_valid_descriptor_witness:
  "fst (main_body kernel_ok (cfg_eth0\<lparr>progname := ''xdp_drop''\<rparr>)) = 40
   \<and> set_link_calls (snd (main_body kernel_ok (cfg_eth0\<lparr>progname := ''xdp_drop''\<rparr>))) = []"
  using C10_attach_needs_valid_descriptor
    [of "cfg_eth0\<lparr>progname := ''xdp_drop''\<rparr>" kernel_ok bundle_ex
      "\<lparr>section_title = ''xdp_drop'', prog_type = BPF_PROG_TYPE_XDP, fd = - 1\<rparr>"]
  by (simp add: example_defs default_cfg_def bpf_object__find_program_by_title_def
      bpf_program__title_def bpf_program__fd_def EXIT_FAIL_BPF_def)

subsection \<open>The missing device\<close>

text \<open>
  C5: for every configuration with interface index -1 the command ends with the
  option/configuration-failure exit code before any attach or detach: whether or not
  unload was requested, the run prints the echo line and the error line, shows the
  usage, and makes no kernel attachment call and no other operation.
\<close>

theorem C5_unresolved_interface_is_option_failure:
  "ifindex cfg = - 1 \<Longrightarrow>
     main_body e cfg =
       (EXIT_FAIL_OPTION,
        [Printf Stdout ''filename:%s size:%ld progname:%s\<newline>''
           [S (filename cfg), Sizeof_filename, S (progname cfg)],
         Printf Stderr ''ERR: required option --dev missing\<newline>'' [],
         Call_usage])
     \<and> set_link_calls (snd (main_body e cfg)) = []
     \<and> operations (snd (main_body e cfg)) = []"
  by (simp add: set_link_calls_main_body operations_main_body) (simp add: main_body_def)

theorem C5_unresolved_interface_is_option_failure_witness:
  "main_body kernel_ok (cfg_eth0\<lparr>ifindex := - 1, do_unload := True\<rparr>) =
       (2,
        [Printf Stdout ''filename:%s size:%ld progname:%s\<newline>''
           [S ''xdp_prog_kern.o'', Sizeof_filename, S ''xdp_pass''],
         Printf Stderr ''ERR: required option --dev missing\<newline>'' [],
         Call_usage])
   \<and> set_link_calls (snd (main_body kernel_ok (cfg_eth0\<lparr>ifindex := - 1, do_unload := True\<rparr>))) = []"
  using C5_unresolved_interface_is_option_failure
    [of "cfg_eth0\<lparr>ifindex := - 1, do_unload := True\<rparr>" kernel_ok]
  by (simp add: cfg_eth0_def default_cfg_def default_filename_def default_progname_def
      EXIT_FAIL_OPTION_def set_link_calls_Nil set_link_calls_Cons)

subsection \<open>Hints\<close>

text \<open>
  C6: the hint after a failed attach is a lookup on the error code alone. For the kernel's
  "busy" (EBUSY, an attachment is already present) the hint advises --force to swap or
  replace; for "not supported" (EOPNOTSUPP) it advises --skb-mode or --auto-mode; for
  every other error code, and when the attach succeeds, no hint line is printed.
\<close>

theorem C6_hint_lookup:
  "hints (snd (xdp_load e cfg prog_fd)) =
     (let err = bpf_set_link_xdp_fd e (ifindex cfg) prog_fd (xdp_flags cfg) in
      if err < 0 \<and> - err = EBUSY then
        [Printf Stderr
           ''Hint: XDP already loaded on device use --force to swap/replace\<newline>'' []]
      else if err < 0 \<and> - err = EOPNOTSUPP then
        [Printf Stderr
           ''Hint: Native-XDP not supported use --skb-mode or --auto-mode\<newline>'' []]
      else [])"
  by (simp add: xdp_load_def Let_def hints_def is_hint_def)

theorem C6_hint_lookup_witness:
  "hints (snd (xdp_load kernel_busy cfg_eth0 3)) =
     [Printf Stderr
        ''Hint: XDP already loaded on device use --force to swap/replace\<newline>'' []]
   \<and> hints (snd (xdp_load kernel_ok cfg_eth0 3)) = []"
  using C6_hint_lookup [of kernel_busy cfg_eth0 3] C6_hint_lookup [of kernel_ok cfg_eth0 3]
  by (simp add: kernel_busy_def kernel_ok_def EBUSY_def)

subsection \<open>Selection failure\<close>

text \<open>
  C9: for every successfully loaded bundle, when no entry point has the requested
  name, the names listed in the output are exactly the titles of the XDP entry points
  of the bundle, in the order of the enumeration (so every compatible entry point
  present has been listed), the last line is the error line naming the requested entry
  point, and the run ends with the load/selection-failure exit code.
\<close>

theorem C9_selection_failure_lists_candidates:
  "ifindex cfg \<noteq> - 1 \<and> \<not> do_unload cfg
     \<and> bpf_prog_load_xattr e \<lparr>attr_file = filename cfg, attr_prog_type = BPF_PROG_TYPE_XDP\<rparr>
         = (0, Some obj)
     \<and> bpf_object__find_program_by_title obj (progname cfg) = None \<Longrightarrow>
   fst (main_body e cfg) = EXIT_FAIL_BPF
   \<and> listed (snd (main_body e cfg))
       = map bpf_program__title (filter bpf_program__is_xdp (programs obj))
   \<and> last (snd (main_body e cfg))
       = Printf Stderr ''ERR: finding progname: %s\<newline>'' [S (progname cfg)]"
proof -
  assume a: "ifindex cfg \<noteq> - 1 \<and> \<not> do_unload cfg
     \<and> bpf_prog_load_xattr e \<lparr>attr_file = filename cfg, attr_prog_type = BPF_PROG_TYPE_XDP\<rparr>
         = (0, Some obj)
     \<and> bpf_object__find_program_by_title obj (progname cfg) = None"
  then have l: "load_bpf_object_file e (filename cfg) =
     (Some obj,
      [Call_bpf_prog_load_xattr \<lparr>attr_file = filename cfg, attr_prog_type = BPF_PROG_TYPE_XDP\<rparr>])"
    by (simp add: load_bpf_object_file_ok)
  from a l have 1: "fst (main_body e cfg) = EXIT_FAIL_BPF"
    by (simp add: main_body_def Let_def)
  from a l have 2: "listed (snd (main_body e cfg))
       = map bpf_program__title (filter bpf_program__is_xdp (programs obj))"
    by (simp add: main_body_def Let_def listed_Nil listed_Cons listed_append
        print_avail_progs_def listed_print_avail_progs_loop)
  from a l have 3: "last (snd (main_body e cfg))
       = Printf Stderr ''ERR: finding progname: %s\<newline>'' [S (progname cfg)]"
    by (simp add: main_body_def Let_def)
  from 1 2 3 show ?thesis by simp
qed

theorem C9_selection_failure_lists_candidates_witness:
  "fst (main_body kernel_ok (cfg_eth0\<lparr>progname := ''missing_one''\<rparr>)) = 40
   \<and> listed (snd (main_body kernel_ok (cfg_eth0\<lparr>progname := ''missing_one''\<rparr>)))
       = [''xdp_pass'', ''xdp_drop'']
   \<and> last (snd (main_body kernel_ok (cfg_eth0\<lparr>progname := ''missing_one''\<rparr>)))
       = Printf Stderr ''ERR: finding progname: %s\<newline>'' [S ''missing_one'']"
  using C9_selection_failure_lists_candidates
    [of "cfg_eth0\<lparr>progname := ''missing_one''\<rparr>" kernel_ok bundle_ex]
  by (simp add: example_defs default_cfg_def bpf_object__find_program_by_title_def
      bpf_program__title_def bpf_program__is_xdp_def EXIT_FAIL_BPF_def)

subsection \<open>Order of the operations\<close>

lemma main_body_EXIT_OK:
  "fst (main_body e cfg) = EXIT_OK \<Longrightarrow>
   operations (snd (main_body e cfg)) =
     (if do_unload cfg then [Op_detach] else [Op_load, Op_select, Op_attach, Op_info_query])"
  by (simp add: operations_main_body split: option.splits)
     (auto simp add: main_body_def Let_def case_prod_beta consts_defs
        split: option.splits if_splits)

lemma parse_cmdline_args_do_unload:
  "parse_cmdline_args a cfg0 = Inr cfg \<Longrightarrow> do_unload cfg = unloadRequested a"
  by (auto simp add: parse_cmdline_args_def split: sum.splits)

lemma operations_main:
  "operations (snd (main e a)) =
     Op_configuration #
       (case parse_cmdline_args a default_cfg of
          Inl err \<Rightarrow> []
        | Inr cfg \<Rightarrow> operations (snd (main_body e cfg)))"
  by (simp add: main_def case_prod_beta operations_Cons operations_Nil split: sum.splits)

lemma fst_main:
  "fst (main e a) =
     (case parse_cmdline_args a default_cfg of
        Inl err \<Rightarrow> EXIT_FAIL_OPTION
      | Inr cfg \<Rightarrow> fst (main_body e cfg))"
  by (simp add: main_def case_prod_beta split: sum.splits)

lemma main_EXIT_OK:
  "fst (main e a) = EXIT_OK \<Longrightarrow>
     operations (snd (main e a)) =
       (if unloadRequested a then [Op_configuration, Op_detach]
        else [Op_configuration, Op_load, Op_select, Op_attach, Op_info_query])"
proof (cases "parse_cmdline_args a default_cfg")
  case (Inl err)
  assume "fst (main e a) = EXIT_OK"
  with Inl show ?thesis by (simp add: fst_main consts_defs)
next
  case (Inr c)
  assume "fst (main e a) = EXIT_OK"
  with Inr have ok: "fst (main_body e c) = EXIT_OK" by (simp add: fst_main)
  from Inr have "do_unload c = unloadRequested a" by (rule parse_cmdline_args_do_unload)
  with Inr main_body_EXIT_OK [OF ok] show ?thesis
    by (simp add: operations_main)
qed

lemma prefix_operations_main_body:
  "prefix (operations (snd (main_body e cfg)))
     (if do_unload cfg then [Op_detach] else [Op_load, Op_select, Op_attach, Op_info_query])"
  by (simp add: operations_main_body split: option.splits)

text \<open>
  C7: the operations run in the order configuration (with mode resolution), then, if
  unload is requested, detach only, and otherwise load, select, attach, info-query.
  The operations of every run of the part of \<open>main\<close> after the parser are an initial
  segment of \<open>[detach]\<close> for an unload (so the bundle is not loaded and no entry point
  is selected) and of \<open>[load, select, attach, info-query]\<close> otherwise; a run that ends
  with the success code has made all of them; and in \<open>main\<close> the parser comes first,
  the same holds with the configuration step in front, and a run of \<open>main\<close> that ends
  with the success code has made the whole sequence.
\<close>

theorem C7_operation_order:
  "prefix (operations (snd (main_body e cfg)))
     (if do_unload cfg then [Op_detach] else [Op_load, Op_select, Op_attach, Op_info_query])
   \<and> (fst (main_body e cfg) = EXIT_OK \<longrightarrow>
        operations (snd (main_body e cfg)) =
          (if do_unload cfg then [Op_detach]
           else [Op_load, Op_select, Op_attach, Op_info_query]))
   \<and> prefix (operations (snd (main e a)))
       (if unloadRequested a then [Op_configuration, Op_detach]
        else [Op_configuration, Op_load, Op_select, Op_attach, Op_info_query])
   \<and> hd (operations (snd (main e a))) = Op_configuration
   \<and> (fst (main e a) = EXIT_OK \<longrightarrow>
        operations (snd (main e a)) =
          (if unloadRequested a then [Op_configuration, Op_detach]
           else [Op_configuration, Op_load, Op_select, Op_attach, Op_info_query]))"
proof (intro conjI impI)
  show "prefix (operations (snd (main_body e cfg)))
     (if do_unload cfg then [Op_detach] else [Op_load, Op_select, Op_attach, Op_info_query])"
    by (rule prefix_operations_main_body)
next
  assume "fst (main_body e cfg) = EXIT_OK"
  then show "operations (snd (main_body e cfg)) =
          (if do_unload cfg then [Op_detach]
           else [Op_load, Op_select, Op_attach, Op_info_query])"
    by (rule main_body_EXIT_OK)
next
  show "prefix (operations (snd (main e a)))
       (if unloadRequested a then [Op_configuration, Op_detach]
        else [Op_configuration, Op_load, Op_select, Op_attach, Op_info_query])"
  proof (cases "parse_cmdline_args a default_cfg")
    case (Inl err)
    then show ?thesis by (simp add: operations_main)
  next
    case (Inr c)
    then have "do_unload c = unloadRequested a" by (rule parse_cmdline_args_do_unload)
    with Inr prefix_operations_main_body [of e c] show ?thesis
      by (simp add: operations_main split: if_splits)
  qed
next
  show "hd (operations (snd (main e a))) = Op_configuration"
    by (simp add: operations_main)
next
  assume "fst (main e a) = EXIT_OK"
  then show "operations (snd (main e a)) =
          (if unloadRequested a then [Op_configuration, Op_detach]
           else [Op_configuration, Op_load, Op_select, Op_attach, Op_info_query])"
    by (rule main_EXIT_OK)
qed

theorem C7_operation_order_witness:
  "operations (snd (main_body kernel_ok cfg_eth0)) = [Op_load, Op_select, Op_attach, Op_info_query]
   \<and> prefix (operations (snd (main kernel_ok (cmd_eth0\<lparr>unloadRequested := True\<rparr>))))
        [Op_configuration, Op_detach]
   \<and> operations (snd (main kernel_ok (cmd_eth0\<lparr>unloadRequested := True\<rparr>)))
        = [Op_configuration, Op_detach]"
  using C7_operation_order [of kernel_ok cfg_eth0 "cmd_eth0\<lparr>unloadRequested := True\<rparr>"]
  by (simp add: example_defs loader_defs consts_defs Let_def main_def parse_cmdline_args_def
      resolve_def)

subsection \<open>Mode resolution\<close>

text \<open>
  C1: for every flag set with skbMode and nativeMode both true, whatever the other
  flags and the rest of the command line, mode resolution returns the ConfigError
  "conflicting mode flags", the parser fails with it, and the command ends with the
  option-failure exit code having done nothing but the configuration step: no load and
  no attach.
\<close>

theorem C1_conflicting_modes_are_config_error:
  "skbMode (modeFlags a) \<and> nativeMode (modeFlags a) \<Longrightarrow>
     resolve (modeFlags a) = Inl (ConfigError ''conflicting mode flags'')
     \<and> parse_cmdline_args a cfg = Inl (ConfigError ''conflicting mode flags'')
     \<and> main e a = (EXIT_FAIL_OPTION, [Call_parse_cmdline_args])
     \<and> operations (snd (main e a)) = [Op_configuration]"
  by (simp add: resolve_def parse_cmdline_args_def main_def operations_Cons operations_Nil)

theorem C1_conflicting_modes_are_config_error_witness:
  "main kernel_ok
     (cmd_eth0\<lparr>modeFlags := no_flags\<lparr>skbMode := True, nativeMode := True, force := True\<rparr>\<rparr>)
   = (2, [Call_parse_cmdline_args])"
  using C1_conflicting_modes_are_config_error
    [of "cmd_eth0\<lparr>modeFlags := no_flags\<lparr>skbMode := True, nativeMode := True, force := True\<rparr>\<rparr>"
      default_cfg kernel_ok]
  by (simp add: cmd_eth0_def no_flags_def EXIT_FAIL_OPTION_def)

text \<open>
  C4: when none of skbMode, nativeMode and autoMode is set, the resolved attachment
  mode is DriverNative with ReplaceIfExists absent: the default bitmask, the one of the
  initialiser of \<open>main\<close>, requests the driver mode and no other, and refuses to replace
  an existing attachment. With no flag set the resolver returns that bitmask and the
  parser leaves it in the configuration. ReplaceIfExists is the business of force alone:
  with no mode flag, the mode is DriverNative in any case, and ReplaceIfExists is
  present exactly when force is set.
\<close>

theorem C4_default_mode:
  "DriverNative (xdp_flags default_cfg) \<and> \<not> SkbGeneric (xdp_flags default_cfg)
   \<and> \<not> HardwareOffload (xdp_flags default_cfg) \<and> \<not> ReplaceIfExists (xdp_flags default_cfg)
   \<and> (\<not> skbMode fl \<and> \<not> nativeMode fl \<and> \<not> autoMode fl \<and> \<not> force fl \<longrightarrow>
        resolve fl = Inr (xdp_flags default_cfg))
   \<and> (\<not> skbMode (modeFlags a) \<and> \<not> nativeMode (modeFlags a) \<and> \<not> autoMode (modeFlags a)
        \<and> \<not> force (modeFlags a) \<longrightarrow>
        (\<exists>cfg. parse_cmdline_args a default_cfg = Inr cfg
           \<and> xdp_flags cfg = xdp_flags default_cfg))
   \<and> (\<not> skbMode fl \<and> \<not> nativeMode fl \<and> \<not> autoMode fl \<longrightarrow>
        (\<exists>m. resolve fl = Inr m
           \<and> DriverNative m \<and> \<not> SkbGeneric m \<and> \<not> HardwareOffload m
           \<and> (ReplaceIfExists m \<longleftrightarrow> force fl)))"
  by (simp add: resolve_def parse_cmdline_args_def DriverNative_def SkbGeneric_def
      HardwareOffload_def ReplaceIfExists_def default_cfg_def consts_defs)

theorem C4_default_mode_witness:
  "resolve no_flags = Inr (xdp_flags default_cfg)
   \<and> xdp_flags default_cfg = 5
   \<and> DriverNative 5 \<and> \<not> ReplaceIfExists 5"
  using C4_default_mode [of no_flags cmd_eth0]
  by (simp add: no_flags_def default_cfg_def consts_defs)

subsection \<open>The post-attach query\<close>

text \<open>
  C2, as stated, fails: with a kernel that accepts the attach and fails the query, the
  attach call is made and returns 0, the query returns -1, and \<open>main\<close> returns -1, which
  is not the success code.
\<close>

theorem C2_info_failure_counterexample:
  "bpf_set_link_xdp_fd kernel_info_fails 3 3 5 = 0
   \<and> set_link_calls (snd (main_body kernel_info_fails cfg_eth0)) = [(3, 3, 5)]
   \<and> fst (bpf_obj_get_info_by_fd kernel_info_fails 3) = - 1
   \<and> fst (main_body kernel_info_fails cfg_eth0) = - 1
   \<and> fst (main_body kernel_info_fails cfg_eth0) \<noteq> EXIT_OK"
  by (simp add: example_defs loader_defs consts_defs Let_def set_link_calls_Cons
      set_link_calls_Nil)

text \<open>
  C2, amended: in every run in which the attach succeeds and the post-attach query
  fails, the loader prints the error line "ERR: can't get prog info" on the error
  stream as its last line, prints no success line, and \<open>main\<close> returns the non-zero
  return value of the query: the command does not end with the success code.
\<close>

theorem C2_info_failure_is_returned:
  "ifindex cfg \<noteq> - 1 \<and> \<not> do_unload cfg
     \<and> bpf_prog_load_xattr e \<lparr>attr_file = filename cfg, attr_prog_type = BPF_PROG_TYPE_XDP\<rparr>
         = (0, Some obj)
     \<and> bpf_object__find_program_by_title obj (progname cfg) = Some p
     \<and> 0 < bpf_program__fd p
     \<and> 0 \<le> bpf_set_link_xdp_fd e (ifindex cfg) (bpf_program__fd p) (xdp_flags cfg)
     \<and> bpf_obj_get_info_by_fd e (bpf_program__fd p) = (err, info)
     \<and> err \<noteq> 0 \<Longrightarrow>
   main_body e cfg =
     (err,
      [Printf Stdout ''filename:%s size:%ld progname:%s\<newline>''
         [S (filename cfg), Sizeof_filename, S (progname cfg)],
       Call_bpf_prog_load_xattr \<lparr>attr_file = filename cfg, attr_prog_type = BPF_PROG_TYPE_XDP\<rparr>,
       Printf Stdout ''XXX: bpf_object__name:%s\<newline>'' [S (bpf_object__name obj)]]
      @ print_avail_progs obj
      @ [Call_bpf_object__find_program_by_title (progname cfg),
         Call_bpf_set_link_xdp_fd (ifindex cfg) (bpf_program__fd p) (xdp_flags cfg),
         Call_bpf_obj_get_info_by_fd (bpf_program__fd p),
         Printf Stderr ''ERR: can't get prog info - %s\<newline>'' [Strerror_errno]])
   \<and> fst (main_body e cfg) \<noteq> EXIT_OK"
proof -
  assume a: "ifindex cfg \<noteq> - 1 \<and> \<not> do_unload cfg
     \<and> bpf_prog_load_xattr e \<lparr>attr_file = filename cfg, attr_prog_type = BPF_PROG_TYPE_XDP\<rparr>
         = (0, Some obj)
     \<and> bpf_object__find_program_by_title obj (progname cfg) = Some p
     \<and> 0 < bpf_program__fd p
     \<and> 0 \<le> bpf_set_link_xdp_fd e (ifindex cfg) (bpf_program__fd p) (xdp_flags cfg)
     \<and> bpf_obj_get_info_by_fd e (bpf_program__fd p) = (err, info)
     \<and> err \<noteq> 0"
  then have l: "load_bpf_object_file e (filename cfg) =
     (Some obj,
      [Call_bpf_prog_load_xattr \<lparr>attr_file = filename cfg, attr_prog_type = BPF_PROG_TYPE_XDP\<rparr>])"
    by (simp add: load_bpf_object_file_ok)
  from a have x: "xdp_load e cfg (bpf_program__fd p) =
     (EXIT_OK, [Call_bpf_set_link_xdp_fd (ifindex cfg) (bpf_program__fd p) (xdp_flags cfg)])"
    by (simp add: xdp_load_def Let_def)
  from a l x show ?thesis
    by (simp add: main_body_def Let_def EXIT_OK_def)
qed

theorem C2_info_failure_is_returned_witness:
  "fst (main_body kernel_info_fails cfg_eth0) = - 1
   \<and> last (snd (main_body kernel_info_fails cfg_eth0))
       = Printf Stderr ''ERR: can't get prog info - %s\<newline>'' [Strerror_errno]"
  using C2_info_failure_is_returned [of cfg_eth0 kernel_info_fails bundle_ex
      "\<lparr>section_title = ''xdp_pass'', prog_type = BPF_PROG_TYPE_XDP, fd = 3\<rparr>" "- 1"
      "\<lparr>info_name = [], info_id = 0\<rparr>"]
  by (simp add: example_defs default_cfg_def default_progname_def
      bpf_object__find_program_by_title_def bpf_program__title_def bpf_program__fd_def)

subsection \<open>Selection and program kind\<close>








end
